theory Spec2Isabelle
  imports Complex_Main "HOL-Library.Sublist"
begin

section \<open>Strings\<close>

text \<open>
  The engine works on JavaScript strings. They are modelled as \<^typ>\<open>string\<close>, one
  \<^typ>\<open>char\<close> per code unit, so the model covers the texts whose code units are below
  \<open>0x100\<close> (Latin-1). On these, \<open>toLowerCase\<close> folds \<open>A\<close>..\<open>Z\<close> and the capital letters
  \<open>0xC0\<close>..\<open>0xDE\<close> but for the multiplication sign \<open>0xD7\<close>, and the white space of
  \<open>/\s/\<close> and \<open>trim\<close> is tab, line feed, vertical tab, form feed, carriage return, space
  and the no-break space \<open>0xA0\<close>. Numbers are JavaScript doubles in the source; they are
  modelled as \<^typ>\<open>real\<close>, so rounding is not part of the model.
\<close>

definition upperLetters :: string where
  "upperLetters = ''ABCDEFGHIJKLMNOPQRSTUVWXYZ'' @ [
      CHR 0xC0, CHR 0xC1, CHR 0xC2, CHR 0xC3, CHR 0xC4, CHR 0xC5, CHR 0xC6, CHR 0xC7,
      CHR 0xC8, CHR 0xC9, CHR 0xCA, CHR 0xCB, CHR 0xCC, CHR 0xCD, CHR 0xCE, CHR 0xCF,
      CHR 0xD0, CHR 0xD1, CHR 0xD2, CHR 0xD3, CHR 0xD4, CHR 0xD5, CHR 0xD6, CHR 0xD8,
      CHR 0xD9, CHR 0xDA, CHR 0xDB, CHR 0xDC, CHR 0xDD, CHR 0xDE]"

definition lowerLetters :: string where
  "lowerLetters = ''abcdefghijklmnopqrstuvwxyz'' @ [
      CHR 0xE0, CHR 0xE1, CHR 0xE2, CHR 0xE3, CHR 0xE4, CHR 0xE5, CHR 0xE6, CHR 0xE7,
      CHR 0xE8, CHR 0xE9, CHR 0xEA, CHR 0xEB, CHR 0xEC, CHR 0xED, CHR 0xEE, CHR 0xEF,
      CHR 0xF0, CHR 0xF1, CHR 0xF2, CHR 0xF3, CHR 0xF4, CHR 0xF5, CHR 0xF6, CHR 0xF8,
      CHR 0xF9, CHR 0xFA, CHR 0xFB, CHR 0xFC, CHR 0xFD, CHR 0xFE]"

definition lowerChar :: "char \<Rightarrow> char" where
  "lowerChar c =
     (case map_of (zip upperLetters lowerLetters) c of
        Some d \<Rightarrow> d
      | None \<Rightarrow> c)"

definition toLowerCase :: "string \<Rightarrow> string" where
  "toLowerCase s = map lowerChar s"

definition isWhiteSpace :: "char \<Rightarrow> bool" where
  "isWhiteSpace c \<longleftrightarrow>
     c = CHR 0x09 \<or> c = CHR 0x0A \<or> c = CHR 0x0B \<or> c = CHR 0x0C \<or> c = CHR 0x0D
     \<or> c = CHR '' '' \<or> c = CHR 0xA0"

text \<open>\<open>s.includes(sub)\<close>: \<open>sub\<close> occurs in \<open>s\<close> as a contiguous run.\<close>

fun str_includes :: "string \<Rightarrow> string \<Rightarrow> bool" where
  "str_includes [] sub = (sub = [])"
| "str_includes (c # cs) sub = (prefix sub (c # cs) \<or> str_includes cs sub)"

text \<open>\<open>s.split(' ')\<close>: cut at every single space; empty pieces are kept.\<close>

fun split_space :: "string \<Rightarrow> string list" where
  "split_space [] = [[]]"
| "split_space (c # cs) =
     (if c = CHR '' '' then [] # split_space cs
      else (case split_space cs of
              [] \<Rightarrow> [[c]]
            | w # ws \<Rightarrow> (c # w) # ws))"

text \<open>
  \<open>s.split(/\s+/)\<close>: cut at every maximal run of white space; a run at the start or
  at the end leaves an empty piece there.
\<close>

function split_ws :: "string \<Rightarrow> string list" where
  "split_ws [] = [[]]"
| "split_ws (c # cs) =
     (if isWhiteSpace c then [] # split_ws (dropWhile isWhiteSpace cs)
      else (case split_ws cs of
              [] \<Rightarrow> [[c]]
            | w # ws \<Rightarrow> (c # w) # ws))"
  by pat_completeness auto
termination
  by (relation "measure length") (auto simp: less_Suc_eq_le length_dropWhile_le)

definition trim :: "string \<Rightarrow> string" where
  "trim s = rev (dropWhile isWhiteSpace (rev (dropWhile isWhiteSpace s)))"

text \<open>\<open>xs.join(sep)\<close>.\<close>

fun join :: "string \<Rightarrow> string list \<Rightarrow> string" where
  "join sep [] = []"
| "join sep [x] = x"
| "join sep (x # y # ys) = x @ sep @ join sep (y # ys)"

text \<open>
  \<open>xs.slice(0, n)\<close> for an integer \<open>n\<close>: a negative \<open>n\<close> counts from the end of the
  array.
\<close>

definition slice0 :: "'a list \<Rightarrow> int \<Rightarrow> 'a list" where
  "slice0 xs n = (if n < 0 then take (nat (int (length xs) + n)) xs else take (nat n) xs)"

section \<open>Data model\<close>

datatype error = TypeError

record Cause =
  cause_id :: string
  cause_label :: string
  cause_keywords :: "string list option"

record PlantRecord =
  plant_id :: string
  plant_name :: string
  aliases :: "string list"
  symptoms :: "string list option"
  causes :: "Cause list"
  solutions :: "string \<rightharpoonup> string list"
  eco_tip :: string

record SymptomMatch =
  symptom :: string
  source :: string
  weight :: real
  matchType :: "string option"

record Diagnosis =
  cause :: Cause
  confidence :: real
  why :: string
  actions :: "string list"
  diag_eco_tip :: string

record DiagnosisResult =
  plantName :: string
  plantMatchScore :: real
  diagnoses :: "Diagnosis list"
  timestamp :: string
  originalInput :: "string option"
  detectedPlant :: "string option"
  detectionMethod :: "string option"

record Config =
  minConfidenceThreshold :: real
  maxDiagnoses :: int
  plantMatchWeight :: real
  symptomMatchWeight :: real
  fuzzyThreshold :: real
  maxInputLength :: int

text \<open>The defaults of \<open>loadConfig\<close>.\<close>

definition defaultConfig :: Config where
  "defaultConfig =
     \<lparr>minConfidenceThreshold = 0.3, maxDiagnoses = 3, plantMatchWeight = 0.4,
      symptomMatchWeight = 0.6, fuzzyThreshold = 0.6, maxInputLength = 500\<rparr>"

text \<open>\<open>this.plants.find(p => p.id === 'generic')\<close>; \<open>None\<close> is \<open>undefined\<close>.\<close>

definition findGeneric :: "PlantRecord list \<Rightarrow> PlantRecord option" where
  "findGeneric plants = find (\<lambda>p. plant_id p = ''generic'') plants"

section \<open>Plant detection\<close>

text \<open>
  \<open>Fuse\<close> is an external library: its \<open>search\<close> is a parameter of the model, a function
  from the query to the hits in rank order, each an item with its score.
\<close>

type_synonym fuse = "string \<Rightarrow> (PlantRecord \<times> real) list"

record Detection =
  det_plant :: "PlantRecord option"
  det_score :: real
  det_method :: string

text \<open>
  \<open>parts.every(part => words.some(word => word === part || word.includes(part)))\<close>
\<close>

definition everyWordFound :: "string list \<Rightarrow> string list \<Rightarrow> bool" where
  "everyWordFound parts words =
     list_all (\<lambda>part. list_ex (\<lambda>word. word = part \<or> str_includes word part) words) parts"

fun nameLoop :: "string list \<Rightarrow> PlantRecord list \<Rightarrow> PlantRecord option" where
  "nameLoop words [] = None"
| "nameLoop words (plant # rest) =
     (let plantWords = split_ws (toLowerCase (plant_name plant));
          plantNameMatch = everyWordFound plantWords words
      in if plantNameMatch \<and> length plantWords > 0 then Some plant
         else nameLoop words rest)"

fun aliasInnerLoop :: "string \<Rightarrow> string list \<Rightarrow> string list \<Rightarrow> bool" where
  "aliasInnerLoop text words [] = False"
| "aliasInnerLoop text words (alias # rest) =
     (let aliasLower = toLowerCase alias
      in if length aliasLower > 2 \<and> str_includes text aliasLower
            \<and> everyWordFound (split_ws aliasLower) words
         then True
         else aliasInnerLoop text words rest)"

fun aliasLoop :: "string \<Rightarrow> string list \<Rightarrow> PlantRecord list \<Rightarrow> PlantRecord option" where
  "aliasLoop text words [] = None"
| "aliasLoop text words (plant # rest) =
     (if aliasInnerLoop text words (aliases plant) then Some plant
      else aliasLoop text words rest)"

definition detectPlant :: "Config \<Rightarrow> PlantRecord list \<Rightarrow> fuse \<Rightarrow> string \<Rightarrow> Detection" where
  "detectPlant cfg plants fuse inputText =
     (let text = toLowerCase inputText;
          words = split_ws text
      in case nameLoop words plants of
           Some plant \<Rightarrow>
             \<lparr>det_plant = Some plant, det_score = 1.0, det_method = ''plant_name_match''\<rparr>
         | None \<Rightarrow>
             (case aliasLoop text words plants of
                Some plant \<Rightarrow>
                  \<lparr>det_plant = Some plant, det_score = 0.9, det_method = ''alias_match''\<rparr>
              | None \<Rightarrow>
                  (let fuzzyResults = fuse inputText;
                       fallback = \<lparr>det_plant = findGeneric plants, det_score = 0.1,
                                   det_method = ''generic_fallback''\<rparr>
                   in case fuzzyResults of
                        [] \<Rightarrow> fallback
                      | (item, sc) # _ \<Rightarrow>
                          if sc < fuzzyThreshold cfg
                          then \<lparr>det_plant = Some item, det_score = 1 - sc,
                                det_method = ''fuzzy_match''\<rparr>
                          else fallback)))"

section \<open>Symptom extraction\<close>

definition semanticGroups :: "(string \<times> string list) list" where
  "semanticGroups =
     [(''color_problems'',
         [''yellow'', ''brown'', ''black'', ''white'', ''pale'', ''faded'', ''discolored'']),
      (''texture_problems'',
         [''crispy'', ''mushy'', ''soft'', ''hard'', ''rough'', ''smooth'', ''sticky'']),
      (''shape_problems'',
         [''drooping'', ''wilting'', ''curled'', ''twisted'', ''deformed'', ''stunted'']),
      (''growth_problems'',
         [''not growing'', ''slow growth'', ''small'', ''tiny'', ''weak'', ''thin'']),
      (''water_problems'',
         [''dry'', ''wet'', ''soggy'', ''thirsty'', ''parched'', ''waterlogged'']),
      (''light_problems'',
         [''pale'', ''stretching'', ''leggy'', ''spindly'', ''weak'', ''thin'']),
      (''pest_problems'',
         [''holes'', ''spots'', ''bugs'', ''webs'', ''sticky'', ''powdery''])]"

fun semanticLoop :: "string \<Rightarrow> string \<Rightarrow> (string \<times> string list) list \<Rightarrow> nat \<Rightarrow> nat" where
  "semanticLoop symptomText inputText [] matches = matches"
| "semanticLoop symptomText inputText ((groupName, keywords) # rest) matches =
     (let symptomInGroup = list_ex (\<lambda>keyword. str_includes symptomText keyword) keywords;
          inputInGroup = list_ex (\<lambda>keyword. str_includes inputText keyword) keywords
      in semanticLoop symptomText inputText rest
           (if symptomInGroup \<and> inputInGroup then matches + 1 else matches))"

definition getSemanticMatches :: "string \<Rightarrow> string \<Rightarrow> nat" where
  "getSemanticMatches symptomText inputText =
     semanticLoop symptomText inputText semanticGroups 0"

text \<open>
  The scoring of one candidate symptom in \<open>extractSymptoms\<close>. The state of the loops is
  the pair \<open>(matchScore, matchType)\<close>.
\<close>

fun wordInnerLoop :: "string \<Rightarrow> string list \<Rightarrow> real \<times> string \<Rightarrow> real \<times> string" where
  "wordInnerLoop symptomWord [] st = st"
| "wordInnerLoop symptomWord (inputWord # rest) (matchScore, matchTy) =
     wordInnerLoop symptomWord rest
       (if str_includes inputWord symptomWord \<or> str_includes symptomWord inputWord
        then (matchScore + 0.3, ''partial'')
        else (matchScore, matchTy))"

fun wordLoop :: "string list \<Rightarrow> string list \<Rightarrow> real \<times> string \<Rightarrow> real \<times> string" where
  "wordLoop [] inputWords st = st"
| "wordLoop (symptomWord # rest) inputWords st =
     wordLoop rest inputWords
       (if length symptomWord > 2 then wordInnerLoop symptomWord inputWords st else st)"

fun substringLoop :: "string list \<Rightarrow> string \<Rightarrow> real \<times> string \<Rightarrow> real \<times> string" where
  "substringLoop [] text st = st"
| "substringLoop (symptomWord # rest) text (matchScore, matchTy) =
     substringLoop rest text
       (if length symptomWord > 3 \<and> str_includes text symptomWord
        then (matchScore + 0.5, ''substring'')
        else (matchScore, matchTy))"

text \<open>The \<open>else\<close> branch: the phrase itself is not in the text.\<close>

definition accumulateMatch :: "string \<Rightarrow> string \<Rightarrow> real \<times> string" where
  "accumulateMatch text symptomLower =
     (let symptomWords = split_space symptomLower;
          inputWords = split_space text;
          st1 = wordLoop symptomWords inputWords (0, []);
          st2 = substringLoop symptomWords text st1;
          semanticMatches = getSemanticMatches symptomLower text
      in (fst st2 + real semanticMatches * 0.4,
          if semanticMatches > 0 then ''semantic'' else snd st2))"

definition scoreSymptom :: "string \<Rightarrow> string \<Rightarrow> real \<times> string" where
  "scoreSymptom text symptomLower =
     (if str_includes text symptomLower then (1.0, ''exact'')
      else accumulateMatch text symptomLower)"

fun matchLoop :: "string \<Rightarrow> string list \<Rightarrow> string list \<Rightarrow> SymptomMatch list" where
  "matchLoop text plantSymptoms [] = []"
| "matchLoop text plantSymptoms (s # rest) =
     (let (matchScore, matchTy) = scoreSymptom text (toLowerCase s)
      in if matchScore > 0.2
         then \<lparr>symptom = s,
               source = (if s \<in> set plantSymptoms then ''plant_specific'' else ''generic''),
               weight = min matchScore 1.0,
               matchType = Some matchTy\<rparr> # matchLoop text plantSymptoms rest
         else matchLoop text plantSymptoms rest)"

text \<open>The \<open>forEach\<close> that keeps the first entry of every symptom text.\<close>

fun uniqueLoop :: "SymptomMatch list \<Rightarrow> string set \<Rightarrow> SymptomMatch list" where
  "uniqueLoop [] seenSymptoms = []"
| "uniqueLoop (m # rest) seenSymptoms =
     (if symptom m \<notin> seenSymptoms then m # uniqueLoop rest (insert (symptom m) seenSymptoms)
      else uniqueLoop rest seenSymptoms)"

text \<open>
  \<open>Array.prototype.sort\<close> is stable; with the comparator \<open>b.weight - a.weight\<close> it is
  the stable sort by descending weight.
\<close>

definition sortByWeight :: "SymptomMatch list \<Rightarrow> SymptomMatch list" where
  "sortByWeight ms = sort_key (\<lambda>m. - weight m) ms"

definition symptomsOrEmpty :: "PlantRecord \<Rightarrow> string list" where
  "symptomsOrEmpty plant = (case symptoms plant of None \<Rightarrow> [] | Some ss \<Rightarrow> ss)"

definition extractSymptoms ::
  "PlantRecord list \<Rightarrow> string \<Rightarrow> PlantRecord \<Rightarrow> error + SymptomMatch list" where
  "extractSymptoms plants inputText plant =
     (let text = toLowerCase inputText;
          plantSymptoms = symptomsOrEmpty plant
      in case findGeneric plants of
           None \<Rightarrow> Inl TypeError
         | Some generic \<Rightarrow>
             (case symptoms generic of
                None \<Rightarrow> Inl TypeError
              | Some genericSymptoms \<Rightarrow>
                  (let allSymptoms = plantSymptoms @ genericSymptoms;
                       matchedSymptoms = matchLoop text plantSymptoms allSymptoms;
                       uniqueSymptoms = uniqueLoop (sortByWeight matchedSymptoms) {}
                   in Inr (take 10 uniqueSymptoms))))"

fun enhancedLoop :: "string \<Rightarrow> string list \<Rightarrow> SymptomMatch list" where
  "enhancedLoop inputText [] = []"
| "enhancedLoop inputText (s # rest) =
     (let symptomLower = toLowerCase s
      in if str_includes inputText symptomLower
         then \<lparr>symptom = s, source = ''enhanced_direct'', weight = 1.0, matchType = None\<rparr>
                # enhancedLoop inputText rest
         else if list_ex (\<lambda>word. length word > 2 \<and> str_includes inputText word)
                   (split_space symptomLower)
         then \<lparr>symptom = s, source = ''enhanced_partial'', weight = 0.7, matchType = None\<rparr>
                # enhancedLoop inputText rest
         else enhancedLoop inputText rest)"

definition enhancedSymptomDetection :: "string \<Rightarrow> PlantRecord \<Rightarrow> SymptomMatch list" where
  "enhancedSymptomDetection inputText plant = enhancedLoop inputText (symptomsOrEmpty plant)"

section \<open>Cause scoring\<close>

definition calculateSymptomScore :: "SymptomMatch list \<Rightarrow> real" where
  "calculateSymptomScore ms =
     (if length ms = 0 then 0
      else (let totalWeight = foldl (\<lambda>sum s. sum + weight s) 0 ms;
                maxPossibleWeight = max (length ms) 3
            in min (totalWeight / real maxPossibleWeight) 1.0))"

definition calculateEnhancedConfidence ::
  "Config \<Rightarrow> string list \<Rightarrow> nat \<Rightarrow> SymptomMatch list \<Rightarrow> SymptomMatch list \<Rightarrow> real" where
  "calculateEnhancedConfidence cfg matchedKeywords totalKeywords syms enhancedSymptoms =
     (let keywordScore = real (length matchedKeywords) / real (max totalKeywords 1);
          symptomScore = calculateSymptomScore syms;
          enhancedScore = calculateSymptomScore enhancedSymptoms;
          combinedScore =
            min (plantMatchWeight cfg * keywordScore
                 + symptomMatchWeight cfg * (symptomScore + enhancedScore) / 2) 1.0
      in max combinedScore 0.3)"

text \<open>\<open>[...new Set(xs)]\<close>: the first occurrence of every element, in order.\<close>

fun uniqueStrings :: "string list \<Rightarrow> string list" where
  "uniqueStrings [] = []"
| "uniqueStrings (x # xs) = x # filter (\<lambda>y. y \<noteq> x) (uniqueStrings xs)"

definition keywordsOrEmpty :: "Cause \<Rightarrow> string list" where
  "keywordsOrEmpty c = (case cause_keywords c of None \<Rightarrow> [] | Some ks \<Rightarrow> ks)"

definition allMatchesOf :: "string \<Rightarrow> Cause \<Rightarrow> string list" where
  "allMatchesOf inputLower c =
     (let causeKeywords = keywordsOrEmpty c;
          matchedKeywords =
            filter (\<lambda>keyword. str_includes inputLower (toLowerCase keyword)) causeKeywords;
          partialMatches =
            filter (\<lambda>keyword.
                      list_ex (\<lambda>word. length word > 2 \<and> str_includes inputLower word)
                        (split_space (toLowerCase keyword)))
              causeKeywords
      in uniqueStrings (matchedKeywords @ partialMatches))"

definition quoteSep :: string where
  "quoteSep = [CHR 0x27, CHR '','', CHR '' '', CHR 0x27]"

definition generateEnhancedWhyExplanation ::
  "string list \<Rightarrow> Cause \<Rightarrow> string \<Rightarrow> SymptomMatch list \<Rightarrow> string" where
  "generateEnhancedWhyExplanation matchedKeywords c inputText enhancedSymptoms =
     (if length matchedKeywords = 0 \<and> length enhancedSymptoms = 0
      then ''Based on general plant care patterns, this could be a ''
             @ toLowerCase (cause_label c) @ '' issue.''
      else (let keywordList = join quoteSep (take 3 matchedKeywords);
                symptomList = join quoteSep (map symptom (take 2 enhancedSymptoms));
                explanation = ''Detected keywords: '' @ [CHR 0x27] @ keywordList @ [CHR 0x27];
                explanation2 =
                  (if symptomList \<noteq> []
                   then explanation @ '' and symptoms: '' @ [CHR 0x27] @ symptomList
                          @ [CHR 0x27]
                   else explanation)
            in explanation2 @ '' suggesting '' @ toLowerCase (cause_label c) @ ''.''))"

definition generateGenericWhyExplanation :: "string \<Rightarrow> Cause \<Rightarrow> string" where
  "generateGenericWhyExplanation inputText c =
     (let commonWords = [''yellow'', ''brown'', ''dry'', ''wet'', ''pale'', ''small'', ''weak''];
          foundWords = filter (\<lambda>word. str_includes inputText word) commonWords
      in if length foundWords > 0
         then ''Detected common symptoms like '' @ [CHR 0x27] @ join quoteSep foundWords
                @ [CHR 0x27] @ '' suggesting '' @ toLowerCase (cause_label c) @ ''.''
         else ''Based on the plant type and common issues, this appears to be a ''
                @ toLowerCase (cause_label c) @ '' problem.'')"

definition getCauseLabel :: "string \<Rightarrow> string" where
  "getCauseLabel causeId =
     (case map_of
             [(''underwatering'', ''Underwatering & Dehydration''),
              (''overwatering'', ''Overwatering & Root Rot''),
              (''light_issues'', ''Light Problems & Photosynthesis Issues''),
              (''pests'', ''Pest Infestation & Disease'')] causeId of
        Some l \<Rightarrow> l
      | None \<Rightarrow> ''Plant Health Issue'')"

definition patterns :: "(string \<times> string list) list" where
  "patterns =
     [(''underwatering'', [''dry'', ''crispy'', ''brown'', ''wilting'', ''drooping'', ''thirsty'']),
      (''overwatering'', [''yellow'', ''mushy'', ''wet'', ''soggy'', ''dropping'', ''falling'']),
      (''light_issues'', [''pale'', ''stretching'', ''weak'', ''small'', ''not growing'', ''leggy'']),
      (''pests'', [''bugs'', ''holes'', ''spots'', ''webs'', ''tiny'', ''insects''])]"

fun patternLoop :: "string \<Rightarrow> (string \<times> string list) list \<Rightarrow> Cause option" where
  "patternLoop inputText [] = None"
| "patternLoop inputText ((causeId, keywords) # rest) =
     (let matches = filter (\<lambda>keyword. str_includes inputText keyword) keywords
      in if length matches > 0
         then Some \<lparr>cause_id = causeId, cause_label = getCauseLabel causeId,
                    cause_keywords = Some keywords\<rparr>
         else patternLoop inputText rest)"

definition detectGenericCause :: "string \<Rightarrow> PlantRecord \<Rightarrow> Cause option" where
  "detectGenericCause inputText plant = patternLoop inputText patterns"

definition defaultActions :: "string list" where
  "defaultActions =
     [''Check soil moisture with your finger'',
      ''Ensure proper drainage'',
      ''Adjust watering schedule'',
      ''Monitor plant response'']"

text \<open>
  \<open>plant.solutions[id] || plant.solutions['watering_issues'] || [...]\<close>: an array is
  truthy even when empty, so only a missing key falls through.
\<close>

definition actionsFor :: "PlantRecord \<Rightarrow> string \<Rightarrow> string list" where
  "actionsFor plant causeId =
     (case solutions plant causeId of
        Some a \<Rightarrow> a
      | None \<Rightarrow>
          (case solutions plant ''watering_issues'' of
             Some a \<Rightarrow> a
           | None \<Rightarrow> defaultActions))"

definition noSymptomsDiagnosis :: Diagnosis where
  "noSymptomsDiagnosis =
     \<lparr>cause = \<lparr>cause_id = ''no_symptoms'', cause_label = ''Unclear Symptoms'',
                cause_keywords = None\<rparr>,
      confidence = 0.2,
      why = ''I couldn't detect specific symptoms in your description. Try mentioning specific issues like 'yellow leaves', 'drooping', or 'brown spots'.'',
      actions =
        [''Provide more specific details about what you're seeing'',
         ''Mention the plant name if you know it'',
         ''Describe the symptoms more clearly'',
         ''Include information about watering, light, and recent changes''],
      diag_eco_tip =
        ''When in doubt, less water is usually better than more water for most plants!''\<rparr>"

text \<open>The confidence computed for one cause of the plant.\<close>

definition causeConfidence ::
  "Config \<Rightarrow> SymptomMatch list \<Rightarrow> SymptomMatch list \<Rightarrow> string \<Rightarrow> Cause \<Rightarrow> real" where
  "causeConfidence cfg syms enhancedSymptoms inputLower c =
     calculateEnhancedConfidence cfg (allMatchesOf inputLower c)
       (length (keywordsOrEmpty c)) syms enhancedSymptoms"

text \<open>The loop over \<open>plant.causes\<close>; the result is the array \<open>diagnoses\<close> after it.\<close>

fun causeLoop ::
  "Config \<Rightarrow> PlantRecord \<Rightarrow> SymptomMatch list \<Rightarrow> SymptomMatch list \<Rightarrow> string \<Rightarrow> string
     \<Rightarrow> Cause list \<Rightarrow> Diagnosis list" where
  "causeLoop cfg plant syms enhancedSymptoms inputText inputLower [] = []"
| "causeLoop cfg plant syms enhancedSymptoms inputText inputLower (c # rest) =
     (let allMatches = allMatchesOf inputLower c;
          later = causeLoop cfg plant syms enhancedSymptoms inputText inputLower rest
      in if length allMatches > 0 \<or> plant_id plant = ''generic''
         then (let conf = causeConfidence cfg syms enhancedSymptoms inputLower c
               in if conf \<ge> minConfidenceThreshold cfg
                  then \<lparr>cause = c,
                        confidence = conf,
                        why = generateEnhancedWhyExplanation allMatches c inputText
                                enhancedSymptoms,
                        actions = actionsFor plant (cause_id c),
                        diag_eco_tip = eco_tip plant\<rparr> # later
                  else later)
         else later)"

definition lastResortDiagnosis :: "PlantRecord \<Rightarrow> string \<Rightarrow> Cause \<Rightarrow> Diagnosis" where
  "lastResortDiagnosis plant inputLower genericCause =
     \<lparr>cause = genericCause,
      confidence = 0.4,
      why = generateGenericWhyExplanation inputLower genericCause,
      actions = actionsFor plant (cause_id genericCause),
      diag_eco_tip = eco_tip plant\<rparr>"

text \<open>\<open>diagnoses.sort((a, b) => b.confidence - a.confidence)\<close>, a stable sort.\<close>

definition sortByConfidence :: "Diagnosis list \<Rightarrow> Diagnosis list" where
  "sortByConfidence ds = sort_key (\<lambda>d. - confidence d) ds"

definition generateDiagnoses ::
  "Config \<Rightarrow> PlantRecord \<Rightarrow> SymptomMatch list \<Rightarrow> string \<Rightarrow> Diagnosis list" where
  "generateDiagnoses cfg plant syms inputText =
     (let inputLower = toLowerCase inputText;
          enhancedSymptoms = enhancedSymptomDetection inputLower plant
      in if length syms = 0 \<and> length enhancedSymptoms = 0 then [noSymptomsDiagnosis]
         else (let scored = causeLoop cfg plant syms enhancedSymptoms inputText inputLower
                              (causes plant);
                   withFallback =
                     (if length scored = 0
                      then (case detectGenericCause inputLower plant of
                              Some genericCause \<Rightarrow>
                                [lastResortDiagnosis plant inputLower genericCause]
                            | None \<Rightarrow> [])
                      else scored)
               in slice0 (sortByConfidence withFallback) (maxDiagnoses cfg)))"

section \<open>The orchestrator\<close>

definition emptyInputDiagnosis :: Diagnosis where
  "emptyInputDiagnosis =
     \<lparr>cause = \<lparr>cause_id = ''empty_input'', cause_label = ''No Input Provided'',
                cause_keywords = None\<rparr>,
      confidence = 0,
      why = ''Please provide a description of your plant's problem.'',
      actions =
        [''Describe what you're seeing (yellow leaves, drooping, etc.)'',
         ''Mention the plant name if you know it'',
         ''Include details about watering and light conditions'',
         ''Describe any recent changes to the plant's environment''],
      diag_eco_tip =
        ''The more details you provide, the better I can help diagnose the issue!''\<rparr>"

text \<open>
  \<open>diagnose\<close>. The reading of the clock, \<open>new Date().toISOString()\<close>, is the argument
  \<open>now\<close>. A property read of \<open>undefined\<close> throws: that is \<open>Inl TypeError\<close>.
\<close>

definition diagnose ::
  "Config \<Rightarrow> PlantRecord list \<Rightarrow> fuse \<Rightarrow> string \<Rightarrow> string \<Rightarrow> error + DiagnosisResult" where
  "diagnose cfg plants fuse now inputText =
     (if inputText = [] \<or> length (trim inputText) = 0
      then Inr \<lparr>plantName = ''generic'',
                plantMatchScore = 0,
                diagnoses = [emptyInputDiagnosis],
                timestamp = now,
                originalInput = None,
                detectedPlant = None,
                detectionMethod = None\<rparr>
      else (let truncatedInput =
                  (if int (length inputText) > maxInputLength cfg
                   then take (nat (maxInputLength cfg)) inputText @ ''...''
                   else inputText);
                plantDetection = detectPlant cfg plants fuse truncatedInput
            in case det_plant plantDetection of
                 None \<Rightarrow> Inl TypeError
               | Some plant \<Rightarrow>
                   (case extractSymptoms plants truncatedInput plant of
                      Inl e \<Rightarrow> Inl e
                    | Inr syms \<Rightarrow>
                        Inr \<lparr>plantName = plant_name plant,
                             plantMatchScore = det_score plantDetection,
                             diagnoses = generateDiagnoses cfg plant syms truncatedInput,
                             timestamp = now,
                             originalInput = Some truncatedInput,
                             detectedPlant = Some (plant_id plant),
                             detectionMethod = Some (det_method plantDetection)\<rparr>)))"

section \<open>The engine object\<close>

text \<open>
  What outlives a call is held by the fields of the engine: \<open>this.config\<close>,
  \<open>this.plants\<close> and \<open>this.fuse\<close>. A method takes the engine and returns it with its
  result. In the source the constructor and \<open>addPlant\<close> are the only places that assign a
  field or change an array reachable from one; the arrays that \<open>extractSymptoms\<close>,
  \<open>enhancedSymptomDetection\<close> and \<open>generateDiagnoses\<close> push to and sort in place
  (\<open>matchedSymptoms\<close>, \<open>uniqueSymptoms\<close>, \<open>enhancedSymptoms\<close>, \<open>diagnoses\<close>) and the set
  \<open>seenSymptoms\<close> are created by the call itself. \<open>Fuse\<close>'s \<open>search\<close> is taken to leave
  the index as it is.
\<close>

record Engine =
  eng_config :: Config
  eng_plants :: "PlantRecord list"
  eng_fuse :: fuse

definition detectPlantE :: "Engine \<Rightarrow> string \<Rightarrow> Detection \<times> Engine" where
  "detectPlantE this inputText =
     (detectPlant (eng_config this) (eng_plants this) (eng_fuse this) inputText, this)"

definition extractSymptomsE ::
  "Engine \<Rightarrow> string \<Rightarrow> PlantRecord \<Rightarrow> (error + SymptomMatch list) \<times> Engine" where
  "extractSymptomsE this inputText plant =
     (extractSymptoms (eng_plants this) inputText plant, this)"

definition generateDiagnosesE ::
  "Engine \<Rightarrow> PlantRecord \<Rightarrow> SymptomMatch list \<Rightarrow> string \<Rightarrow> Diagnosis list \<times> Engine" where
  "generateDiagnosesE this plant syms inputText =
     (generateDiagnoses (eng_config this) plant syms inputText, this)"

definition diagnoseE :: "Engine \<Rightarrow> string \<Rightarrow> string \<Rightarrow> (error + DiagnosisResult) \<times> Engine" where
  "diagnoseE this now inputText =
     (if inputText = [] \<or> length (trim inputText) = 0
      then (Inr \<lparr>plantName = ''generic'',
                 plantMatchScore = 0,
                 diagnoses = [emptyInputDiagnosis],
                 timestamp = now,
                 originalInput = None,
                 detectedPlant = None,
                 detectionMethod = None\<rparr>, this)
      else (let truncatedInput =
                  (if int (length inputText) > maxInputLength (eng_config this)
                   then take (nat (maxInputLength (eng_config this))) inputText @ ''...''
                   else inputText);
                (plantDetection, this1) = detectPlantE this truncatedInput
            in case det_plant plantDetection of
                 None \<Rightarrow> (Inl TypeError, this1)
               | Some plant \<Rightarrow>
                   (case extractSymptomsE this1 truncatedInput plant of
                      (Inl e, this2) \<Rightarrow> (Inl e, this2)
                    | (Inr syms, this2) \<Rightarrow>
                        (let (ds, this3) = generateDiagnosesE this2 plant syms truncatedInput
                         in (Inr \<lparr>plantName = plant_name plant,
                                  plantMatchScore = det_score plantDetection,
                                  diagnoses = ds,
                                  timestamp = now,
                                  originalInput = Some truncatedInput,
                                  detectedPlant = Some (plant_id plant),
                                  detectionMethod = Some (det_method plantDetection)\<rparr>,
                             this3)))))"

text \<open>
  \<open>addPlant\<close>: \<open>this.plants.push(plantData)\<close>, then \<open>this.fuse\<close> is built anew from
  the catalog and the configuration by the constructor of \<open>Fuse\<close>, a parameter here. The
  file that \<open>savePlantData\<close> writes is outside the model.
\<close>

definition addPlant ::
  "(Config \<Rightarrow> PlantRecord list \<Rightarrow> fuse) \<Rightarrow> Engine \<Rightarrow> PlantRecord \<Rightarrow> Engine" where
  "addPlant newFuse this plantData =
     (let this1 = this\<lparr>eng_plants := eng_plants this @ [plantData]\<rparr>
      in this1\<lparr>eng_fuse := newFuse (eng_config this1) (eng_plants this1)\<rparr>)"


section \<open>The statements of the specification\<close>

text \<open>The fixed result for an input without text.\<close>

definition emptyInputResult :: "string \<Rightarrow> DiagnosisResult" where
  "emptyInputResult now =
     \<lparr>plantName = ''generic'', plantMatchScore = 0, diagnoses = [emptyInputDiagnosis],
      timestamp = now, originalInput = None, detectedPlant = None, detectionMethod = None\<rparr>"

text \<open>
  The confidence formula as the specification writes it: \<open>avgSymptomScore\<close> has no
  clamp of its own.
\<close>

definition avgSymptomScore :: "SymptomMatch list \<Rightarrow> real" where
  "avgSymptomScore S =
     (if S = [] then 0 else sum_list (map weight S) / real (max (length S) 3))"

definition specConfidence ::
  "Config \<Rightarrow> string list \<Rightarrow> string list \<Rightarrow> SymptomMatch list \<Rightarrow> SymptomMatch list \<Rightarrow> real" where
  "specConfidence cfg allMatches causeKeywords syms enhancedSymptoms =
     max 0.3 (min 1.0
       (plantMatchWeight cfg * (real (length allMatches) / real (max (length causeKeywords) 1))
        + symptomMatchWeight cfg * (avgSymptomScore syms + avgSymptomScore enhancedSymptoms) / 2))"

definition byWeightDesc :: "SymptomMatch \<Rightarrow> SymptomMatch \<Rightarrow> bool" where
  "byWeightDesc a b \<longleftrightarrow> weight b \<le> weight a"

text \<open>Two outcomes of \<open>diagnose\<close> that agree in every field but \<open>timestamp\<close>.\<close>

definition sameButTimestamp ::
  "error + DiagnosisResult \<Rightarrow> error + DiagnosisResult \<Rightarrow> bool" where
  "sameButTimestamp a b \<longleftrightarrow>
     (case (a, b) of
        (Inl e, Inl e') \<Rightarrow> e = e'
      | (Inr r, Inr r') \<Rightarrow>
          plantName r = plantName r' \<and> plantMatchScore r = plantMatchScore r'
          \<and> diagnoses r = diagnoses r' \<and> originalInput r = originalInput r'
          \<and> detectedPlant r = detectedPlant r' \<and> detectionMethod r = detectionMethod r'
      | _ \<Rightarrow> False)"

text \<open>
  The input contains the full name of a plant: every word of the lower-cased name equals
  some word of the lower-cased input or is a substring of it.
\<close>

definition containsFullName :: "string \<Rightarrow> PlantRecord \<Rightarrow> bool" where
  "containsFullName inputText p \<longleftrightarrow>
     (\<forall>nameWord \<in> set (split_ws (toLowerCase (plant_name p))).
        \<exists>inputWord \<in> set (split_ws (toLowerCase inputText)).
          inputWord = nameWord \<or> str_includes inputWord nameWord)"

text \<open>The keywords of the four last-resort pattern sets.\<close>

definition lastResortKeywords :: "string list" where
  "lastResortKeywords = concat (map snd patterns)"

text \<open>
  The bounds on the result as the specification states them: but for the two sentinel
  diagnoses, at most \<open>maxDiagnoses\<close> entries, each with a confidence between
  \<open>minConfidenceThreshold\<close> and 1.
\<close>

definition claimedBounds :: "Config \<Rightarrow> DiagnosisResult \<Rightarrow> bool" where
  "claimedBounds cfg r \<longleftrightarrow>
     diagnoses r = [emptyInputDiagnosis] \<or> diagnoses r = [noSymptomsDiagnosis]
     \<or> (int (length (diagnoses r)) \<le> maxDiagnoses cfg
         \<and> list_all (\<lambda>d. minConfidenceThreshold cfg \<le> confidence d \<and> confidence d \<le> 1)
              (diagnoses r))"

text \<open>
  The parts of the accumulated match weight. The specification counts the symptom
  words that overlap some input word (\<open>claimedWeight\<close>); the loops of the source add once
  for every pair of a symptom word and an input word that overlap (\<open>wordPairCount\<close>).
\<close>

definition semanticGroupCount :: "string \<Rightarrow> string \<Rightarrow> nat" where
  "semanticGroupCount symptomLower text =
     length (filter (\<lambda>(groupName, keywords).
                       list_ex (\<lambda>keyword. str_includes symptomLower keyword) keywords
                       \<and> list_ex (\<lambda>keyword. str_includes text keyword) keywords)
               semanticGroups)"

definition substringWordCount :: "string \<Rightarrow> string \<Rightarrow> nat" where
  "substringWordCount symptomLower text =
     length (filter (\<lambda>symptomWord. length symptomWord > 3 \<and> str_includes text symptomWord)
               (split_space symptomLower))"

definition claimedWeight :: "string \<Rightarrow> string \<Rightarrow> real" where
  "claimedWeight text symptomLower =
     0.3 * real (length (filter
                   (\<lambda>symptomWord. length symptomWord > 2
                      \<and> list_ex (\<lambda>inputWord. str_includes inputWord symptomWord
                                            \<or> str_includes symptomWord inputWord)
                           (split_space text))
                   (split_space symptomLower)))
     + 0.5 * real (substringWordCount symptomLower text)
     + 0.4 * real (semanticGroupCount symptomLower text)"

definition wordPairCount :: "string \<Rightarrow> string \<Rightarrow> nat" where
  "wordPairCount symptomLower text =
     length (filter (\<lambda>(symptomWord, inputWord).
                       length symptomWord > 2
                       \<and> (str_includes inputWord symptomWord
                            \<or> str_includes symptomWord inputWord))
               (List.product (split_space symptomLower) (split_space text)))"

section \<open>A small catalog\<close>

text \<open>
  The catalog file \<open>data/plants.json\<close> is data, not code. The concrete runs below use
  this catalog of two records, the generic one last.
\<close>

definition monstera :: PlantRecord where
  "monstera =
     \<lparr>plant_id = ''monstera'', plant_name = ''Monstera'',
      aliases = [''swiss cheese plant''],
      symptoms = Some [''leaf curl''],
      causes =
        [\<lparr>cause_id = ''root_rot'', cause_label = ''Root Rot'',
          cause_keywords = Some [''fungus'']\<rparr>],
      solutions = [''root_rot'' \<mapsto> [''Repot in fresh soil'']],
      eco_tip = ''Reuse old pots.''\<rparr>"

definition genericPlant :: PlantRecord where
  "genericPlant =
     \<lparr>plant_id = ''generic'', plant_name = ''Generic Plant'',
      aliases = [],
      symptoms = Some [''yellow leaves''],
      causes =
        [\<lparr>cause_id = ''watering_issues'', cause_label = ''Watering Issues'',
          cause_keywords = Some [''water'']\<rparr>,
         \<lparr>cause_id = ''light_issues'', cause_label = ''Light Issues'',
          cause_keywords = Some [''dark'']\<rparr>],
      solutions = [''watering_issues'' \<mapsto> [''Check soil moisture'']],
      eco_tip = ''Collect rainwater.''\<rparr>"

definition catalog :: "PlantRecord list" where
  "catalog = [monstera, genericPlant]"

text \<open>A \<open>Fuse\<close> index that finds nothing.\<close>

definition noFuse :: fuse where
  "noFuse query = []"

text \<open>An engine whose catalog is the generic record alone.\<close>

definition engine0 :: Engine where
  "engine0 = \<lparr>eng_config = defaultConfig, eng_plants = [genericPlant], eng_fuse = noFuse\<rparr>"

section \<open>Helper lemmas\<close>

subsection \<open>Blank input\<close>

lemma dropWhile_all_iff: "(\<forall>x\<in>set (dropWhile P xs). P x) \<longleftrightarrow> (\<forall>x\<in>set xs. P x)"
proof
  assume all: "\<forall>x\<in>set (dropWhile P xs). P x"
  have "dropWhile P xs = []"
  proof (rule ccontr)
    assume ne: "dropWhile P xs \<noteq> []"
    then have "\<not> P (hd (dropWhile P xs))" by (rule hd_dropWhile)
    moreover from ne have "hd (dropWhile P xs) \<in> set (dropWhile P xs)" by simp
    ultimately show False using all by blast
  qed
  then show "\<forall>x\<in>set xs. P x" by simp
next
  assume "\<forall>x\<in>set xs. P x"
  then show "\<forall>x\<in>set (dropWhile P xs). P x" by (blast dest: set_dropWhileD)
qed

lemma trim_Nil_iff: "trim s = [] \<longleftrightarrow> list_all isWhiteSpace s"
  by (simp add: trim_def dropWhile_all_iff list_all_iff)

lemma blank_test_iff:
  "(s = [] \<or> length (trim s) = 0) \<longleftrightarrow> list_all isWhiteSpace s"
  by (auto simp: trim_Nil_iff)

lemma diagnose_blank_eq:
  "list_all isWhiteSpace inputText \<Longrightarrow>
     diagnose cfg plants fuse now inputText = Inr (emptyInputResult now)"
  using blank_test_iff[of inputText] by (simp add: diagnose_def emptyInputResult_def)

lemma diagnose_nonblank_fields:
  assumes "\<not> list_all isWhiteSpace inputText"
    and "diagnose cfg plants fuse now inputText = Inr r"
  shows "originalInput r \<noteq> None \<and> detectedPlant r \<noteq> None \<and> detectionMethod r \<noteq> None"
  using assms blank_test_iff[of inputText]
  by (auto simp: diagnose_def Let_def split: option.splits sum.splits)

subsection \<open>Symptom extraction\<close>

lemma matchLoop_weight:
  "m \<in> set (matchLoop text ps ss) \<Longrightarrow> 0.2 < weight m \<and> weight m \<le> 1"
  by (induction ss) (auto simp: Let_def split: prod.splits if_splits)

lemma uniqueLoop_subset: "set (uniqueLoop ms seen) \<subseteq> set ms"
  by (induction ms arbitrary: seen) auto

lemma uniqueLoop_unseen: "m \<in> set (uniqueLoop ms seen) \<Longrightarrow> symptom m \<notin> seen"
  by (induction ms arbitrary: seen) (auto split: if_splits)

lemma uniqueLoop_distinct: "distinct (map symptom (uniqueLoop ms seen))"
  by (induction ms arbitrary: seen) (auto dest: uniqueLoop_unseen)

lemma uniqueLoop_sorted:
  "sorted_wrt R ms \<Longrightarrow> sorted_wrt R (uniqueLoop ms seen)"
proof (induction ms arbitrary: seen)
  case Nil
  then show ?case by simp
next
  case (Cons m ms)
  then show ?case using uniqueLoop_subset by fastforce
qed

lemma uniqueLoop_first:
  "sorted_wrt byWeightDesc ms \<Longrightarrow> e \<in> set (uniqueLoop ms seen) \<Longrightarrow> c \<in> set ms \<Longrightarrow>
     symptom c = symptom e \<Longrightarrow> weight c \<le> weight e"
proof (induction ms arbitrary: seen)
  case Nil
  then show ?case by simp
next
  case (Cons m ms)
  show ?case
  proof (cases "symptom m \<in> seen")
    case True
    with Cons.prems have e: "e \<in> set (uniqueLoop ms seen)" by simp
    then have "symptom e \<notin> seen" by (rule uniqueLoop_unseen)
    with True Cons.prems have "c \<in> set ms" by auto
    with Cons e show ?thesis by simp
  next
    case False
    with Cons.prems have "e = m \<or> e \<in> set (uniqueLoop ms (insert (symptom m) seen))" by simp
    then show ?thesis
    proof
      assume "e = m"
      with Cons.prems show ?thesis by (auto simp: byWeightDesc_def)
    next
      assume e: "e \<in> set (uniqueLoop ms (insert (symptom m) seen))"
      then have "symptom e \<notin> insert (symptom m) seen" by (rule uniqueLoop_unseen)
      with Cons.prems have "c \<in> set ms" by auto
      with Cons e show ?thesis by simp
    qed
  qed
qed

lemma sortByWeight_sorted: "sorted_wrt byWeightDesc (sortByWeight ms)"
proof -
  have "sorted (map (\<lambda>m. - weight m) (sort_key (\<lambda>m. - weight m) ms))"
    by (rule sorted_sort_key)
  then show ?thesis
    by (simp add: sorted_map sortByWeight_def byWeightDesc_def[abs_def])
qed

lemma set_sortByWeight: "set (sortByWeight ms) = set ms"
  by (simp add: sortByWeight_def)

lemma extractSymptoms_Inr:
  assumes "findGeneric plants = Some g" and "symptoms g = Some gs"
  shows "extractSymptoms plants inputText plant =
           Inr (take 10 (uniqueLoop (sortByWeight
                  (matchLoop (toLowerCase inputText) (symptomsOrEmpty plant)
                     (symptomsOrEmpty plant @ gs))) {}))"
  using assms by (simp add: extractSymptoms_def Let_def)

lemma extractSymptoms_weight:
  assumes "extractSymptoms plants inputText plant = Inr ms" and "m \<in> set ms"
  shows "0.2 < weight m \<and> weight m \<le> 1"
proof -
  from assms obtain cands where "m \<in> set (take 10 (uniqueLoop (sortByWeight
      (matchLoop (toLowerCase inputText) (symptomsOrEmpty plant) cands)) {}))"
    by (auto simp: extractSymptoms_def Let_def split: option.splits)
  then have "m \<in> set (uniqueLoop (sortByWeight
      (matchLoop (toLowerCase inputText) (symptomsOrEmpty plant) cands)) {})"
    by (rule in_set_takeD)
  then have "m \<in> set (matchLoop (toLowerCase inputText) (symptomsOrEmpty plant) cands)"
    using uniqueLoop_subset set_sortByWeight by blast
  then show ?thesis by (rule matchLoop_weight)
qed

subsection \<open>Match weight\<close>

lemma wordInnerLoop_fst:
  "fst (wordInnerLoop sw iws st) =
     fst st + 0.3 * real (length (filter (\<lambda>iw. str_includes iw sw \<or> str_includes sw iw) iws))"
proof (induction iws arbitrary: st)
  case Nil
  then show ?case by simp
next
  case (Cons iw iws)
  obtain a t where st: "st = (a, t)" by (cases st)
  show ?case unfolding st by (simp add: Cons.IH algebra_simps)
qed

lemma wordLoop_fst:
  "fst (wordLoop sws iws st) =
     fst st + 0.3 * real (length (filter (\<lambda>(sw, iw). length sw > 2
                \<and> (str_includes iw sw \<or> str_includes sw iw)) (List.product sws iws)))"
proof (induction sws arbitrary: st)
  case Nil
  then show ?case by simp
next
  case (Cons sw sws)
  have "filter (\<lambda>(sw, iw). length sw > 2 \<and> (str_includes iw sw \<or> str_includes sw iw))
          (map (Pair sw) iws)
        = (if length sw > 2
           then map (Pair sw) (filter (\<lambda>iw. str_includes iw sw \<or> str_includes sw iw) iws)
           else [])"
    by (induction iws) auto
  then show ?case
    by (simp add: Cons.IH wordInnerLoop_fst algebra_simps)
qed

lemma substringLoop_fst:
  "fst (substringLoop sws text st) =
     fst st + 0.5 * real (length (filter (\<lambda>sw. length sw > 3 \<and> str_includes text sw) sws))"
proof (induction sws arbitrary: st)
  case Nil
  then show ?case by simp
next
  case (Cons sw sws)
  obtain a t where st: "st = (a, t)" by (cases st)
  show ?case unfolding st by (simp add: Cons.IH algebra_simps)
qed

lemma semanticLoop_count:
  "semanticLoop s t gs n =
     n + length (filter (\<lambda>(groupName, keywords).
                       list_ex (\<lambda>keyword. str_includes s keyword) keywords
                       \<and> list_ex (\<lambda>keyword. str_includes t keyword) keywords) gs)"
proof (induction gs arbitrary: n)
  case Nil
  then show ?case by simp
next
  case (Cons g gs)
  obtain gname kws where g: "g = (gname, kws)" by (cases g)
  show ?case unfolding g by (simp add: Cons.IH Let_def)
qed

lemma accumulateMatch_fst:
  "fst (accumulateMatch text symptomLower) =
     0.3 * real (wordPairCount symptomLower text)
     + 0.5 * real (substringWordCount symptomLower text)
     + 0.4 * real (semanticGroupCount symptomLower text)"
  by (simp add: accumulateMatch_def Let_def wordLoop_fst substringLoop_fst
      getSemanticMatches_def semanticLoop_count wordPairCount_def substringWordCount_def
      semanticGroupCount_def)

subsection \<open>Plant names\<close>

lemma split_ws_not_Nil: "split_ws s \<noteq> []"
  by (induction s rule: split_ws.induct) (auto split: list.splits)

lemma everyWordFound_iff:
  "everyWordFound parts words \<longleftrightarrow>
     (\<forall>part\<in>set parts. \<exists>word\<in>set words. word = part \<or> str_includes word part)"
  by (simp add: everyWordFound_def list_all_iff list_ex_iff)

lemma nameLoop_step:
  "nameLoop (split_ws (toLowerCase inputText)) (p # rest) =
     (if containsFullName inputText p then Some p
      else nameLoop (split_ws (toLowerCase inputText)) rest)"
  by (simp add: Let_def everyWordFound_iff containsFullName_def split_ws_not_Nil)

lemma nameLoop_first:
  "\<exists>p\<in>set plants. containsFullName inputText p \<Longrightarrow>
     \<exists>before q after. plants = before @ q # after
       \<and> nameLoop (split_ws (toLowerCase inputText)) plants = Some q
       \<and> containsFullName inputText q
       \<and> (\<forall>b\<in>set before. \<not> containsFullName inputText b)"
proof (induction plants)
  case Nil
  then show ?case by simp
next
  case (Cons p rest)
  show ?case
  proof (cases "containsFullName inputText p")
    case True
    then have "p # rest = [] @ p # rest
       \<and> nameLoop (split_ws (toLowerCase inputText)) (p # rest) = Some p
       \<and> containsFullName inputText p \<and> (\<forall>b\<in>set []. \<not> containsFullName inputText b)"
      by (simp only: nameLoop_step) simp
    then show ?thesis by blast
  next
    case False
    with Cons.prems have "\<exists>p\<in>set rest. containsFullName inputText p" by auto
    then obtain before q after where h: "rest = before @ q # after"
      "nameLoop (split_ws (toLowerCase inputText)) rest = Some q"
      "containsFullName inputText q" "\<forall>b\<in>set before. \<not> containsFullName inputText b"
      using Cons.IH by blast
    have "p # rest = (p # before) @ q # after
       \<and> nameLoop (split_ws (toLowerCase inputText)) (p # rest) = Some q
       \<and> containsFullName inputText q
       \<and> (\<forall>b\<in>set (p # before). \<not> containsFullName inputText b)"
      using h False by (simp only: nameLoop_step) simp
    then show ?thesis by blast
  qed
qed

subsection \<open>Totality\<close>

lemma detectPlant_Some:
  assumes "findGeneric plants = Some g"
  shows "\<exists>p. det_plant (detectPlant cfg plants fuse inputText) = Some p"
  using assms
  by (auto simp: detectPlant_def Let_def split: option.splits list.splits prod.splits)

lemma diagnose_nonblank_eq:
  assumes "\<not> list_all isWhiteSpace inputText"
    and "findGeneric plants = Some g" and "symptoms g = Some gs"
  shows "\<exists>t p ms. extractSymptoms plants t p = Inr ms
           \<and> diagnose cfg plants fuse now inputText =
               Inr \<lparr>plantName = plant_name p,
                    plantMatchScore = det_score (detectPlant cfg plants fuse t),
                    diagnoses = generateDiagnoses cfg p ms t,
                    timestamp = now,
                    originalInput = Some t,
                    detectedPlant = Some (plant_id p),
                    detectionMethod = Some (det_method (detectPlant cfg plants fuse t))\<rparr>"
proof -
  define t where "t = (if int (length inputText) > maxInputLength cfg
                   then take (nat (maxInputLength cfg)) inputText @ ''...''
                   else inputText)"
  obtain p where p: "det_plant (detectPlant cfg plants fuse t) = Some p"
    using detectPlant_Some[OF assms(2)] by blast
  obtain ms where ms: "extractSymptoms plants t p = Inr ms"
    using extractSymptoms_Inr[OF assms(2,3)] by blast
  have "\<not> (inputText = [] \<or> length (trim inputText) = 0)"
    using assms(1) blank_test_iff[of inputText] by simp
  then show ?thesis using p ms
    by (auto simp: diagnose_def Let_def t_def[symmetric])
qed

lemma diagnose_total:
  assumes "findGeneric plants = Some g" and "symptoms g = Some gs"
  shows "\<exists>r. diagnose cfg plants fuse now inputText = Inr r"
proof (cases "list_all isWhiteSpace inputText")
  case True
  then show ?thesis using diagnose_blank_eq by blast
next
  case False
  then show ?thesis using diagnose_nonblank_eq[OF False assms] by blast
qed

lemma catalog_generic: "findGeneric catalog = Some genericPlant"
  by (simp add: findGeneric_def catalog_def monstera_def genericPlant_def)

lemma genericPlant_symptoms: "symptoms genericPlant = Some [''yellow leaves'']"
  by (simp add: genericPlant_def)

subsection \<open>Confidence\<close>

lemma foldl_weight: "foldl (\<lambda>sum s. sum + weight s) a ms = a + sum_list (map weight ms)"
  by (induction ms arbitrary: a) auto

lemma sum_weight_le_length:
  "\<forall>m\<in>set ms. weight m \<le> 1 \<Longrightarrow> sum_list (map weight ms) \<le> real (length ms)"
  by (induction ms) auto

lemma calculateSymptomScore_avg:
  assumes "\<forall>m\<in>set ms. weight m \<le> 1"
  shows "calculateSymptomScore ms = avgSymptomScore ms"
proof (cases "ms = []")
  case True
  then show ?thesis by (simp add: calculateSymptomScore_def avgSymptomScore_def)
next
  case False
  have "sum_list (map weight ms) \<le> real (length ms)"
    using assms by (rule sum_weight_le_length)
  also have "\<dots> \<le> real (max (length ms) 3)" by simp
  finally have "sum_list (map weight ms) / real (max (length ms) 3) \<le> 1"
    by (simp add: divide_le_eq_1)
  with False show ?thesis
    by (simp add: calculateSymptomScore_def avgSymptomScore_def foldl_weight Let_def)
qed

lemma enhancedLoop_weight: "m \<in> set (enhancedLoop t ss) \<Longrightarrow> weight m \<le> 1"
  by (induction ss) (auto simp: Let_def split: if_splits)

lemma causeConfidence_spec:
  assumes "\<forall>m\<in>set syms. weight m \<le> 1" and "\<forall>m\<in>set enh. weight m \<le> 1"
  shows "causeConfidence cfg syms enh inputLower c =
           specConfidence cfg (allMatchesOf inputLower c) (keywordsOrEmpty c) syms enh"
  using calculateSymptomScore_avg[OF assms(1)] calculateSymptomScore_avg[OF assms(2)]
  by (simp add: causeConfidence_def calculateEnhancedConfidence_def specConfidence_def
      Let_def max.commute min.commute)

lemma causeLoop_confidence:
  "d \<in> set (causeLoop cfg plant syms enh inputText inputLower cs) \<Longrightarrow>
     (cause d \<in> set cs
       \<and> (allMatchesOf inputLower (cause d) \<noteq> [] \<or> plant_id plant = ''generic'')
       \<and> confidence d = causeConfidence cfg syms enh inputLower (cause d)
       \<and> minConfidenceThreshold cfg \<le> confidence d)"
  by (induction cs) (auto simp: Let_def split: if_splits)

subsection \<open>Slicing and sorting\<close>

lemma set_slice0: "set (slice0 xs n) \<subseteq> set xs"
  by (auto simp: slice0_def dest: in_set_takeD)

lemma length_slice0: "0 \<le> n \<Longrightarrow> int (length (slice0 xs n)) \<le> n"
  by (simp add: slice0_def)

lemma slice0_single: "slice0 [x] n = (if 1 \<le> n then [x] else [])"
  by (auto simp: slice0_def nat_le_0 take_Cons')

lemma slice0_Nil_iff: "1 \<le> n \<Longrightarrow> slice0 xs n = [] \<longleftrightarrow> xs = []"
  by (auto simp: slice0_def)

lemma set_sortByConfidence: "set (sortByConfidence ds) = set ds"
  by (simp add: sortByConfidence_def)

lemma sortByConfidence_Nil_iff: "sortByConfidence ds = [] \<longleftrightarrow> ds = []"
  using length_sort[of "\<lambda>d. - confidence d" ds] by (auto simp: sortByConfidence_def simp del: length_sort)

lemma sortByConfidence_single: "sortByConfidence [d] = [d]"
  by (simp add: sortByConfidence_def)

subsection \<open>The last resort\<close>

lemma patternLoop_None_iff:
  "patternLoop t ps = None \<longleftrightarrow> (\<forall>k\<in>set (concat (map snd ps)). \<not> str_includes t k)"
proof (induction ps)
  case Nil
  then show ?case by simp
next
  case (Cons p ps)
  obtain cid kws where p: "p = (cid, kws)" by (cases p)
  show ?case unfolding p by (auto simp: Cons.IH Let_def filter_empty_conv)
qed

lemma patternLoop_Some_id:
  "patternLoop t ps = Some c \<Longrightarrow> cause_id c \<in> set (map fst ps)"
proof (induction ps)
  case Nil
  then show ?case by simp
next
  case (Cons p ps)
  obtain cid kws where p: "p = (cid, kws)" by (cases p)
  from Cons show ?case unfolding p by (auto simp: Let_def split: if_splits)
qed

lemma detectGenericCause_None_iff:
  "detectGenericCause t plant = None \<longleftrightarrow> (\<forall>k\<in>set lastResortKeywords. \<not> str_includes t k)"
  by (simp only: detectGenericCause_def lastResortKeywords_def patternLoop_None_iff)

lemma detectGenericCause_id:
  "detectGenericCause t plant = Some c \<Longrightarrow>
     cause_id c \<in> {''underwatering'', ''overwatering'', ''light_issues'', ''pests''}"
  using patternLoop_Some_id[of t patterns c]
  by (simp add: detectGenericCause_def) (simp add: patterns_def)

subsection \<open>Bounds\<close>

lemma calculateEnhancedConfidence_le: "calculateEnhancedConfidence cfg ks n syms enh \<le> 1"
  by (simp add: calculateEnhancedConfidence_def Let_def)

lemma causeLoop_bounds:
  assumes "d \<in> set (causeLoop cfg plant syms enh inputText inputLower cs)"
  shows "minConfidenceThreshold cfg \<le> confidence d \<and> confidence d \<le> 1"
  using causeLoop_confidence[OF assms] calculateEnhancedConfidence_le
  by (simp add: causeConfidence_def)

text \<open>The three ways out of \<open>generateDiagnoses\<close>.\<close>

lemma generateDiagnoses_cases:
  "generateDiagnoses cfg plant syms inputText =
     (let inputLower = toLowerCase inputText;
          enh = enhancedSymptomDetection inputLower plant;
          scored = causeLoop cfg plant syms enh inputText inputLower (causes plant)
      in if syms = [] \<and> enh = [] then [noSymptomsDiagnosis]
         else if scored \<noteq> [] then slice0 (sortByConfidence scored) (maxDiagnoses cfg)
         else (case detectGenericCause inputLower plant of
                 None \<Rightarrow> []
               | Some genericCause \<Rightarrow>
                   slice0 [lastResortDiagnosis plant inputLower genericCause]
                     (maxDiagnoses cfg)))"
  by (simp add: generateDiagnoses_def Let_def sortByConfidence_single slice0_def
      sortByConfidence_def split: option.splits)

lemma generateDiagnoses_bounds:
  assumes "0 \<le> maxDiagnoses cfg"
  shows "generateDiagnoses cfg plant syms inputText = [noSymptomsDiagnosis]
         \<or> (int (length (generateDiagnoses cfg plant syms inputText)) \<le> maxDiagnoses cfg
             \<and> ((\<forall>d\<in>set (generateDiagnoses cfg plant syms inputText).
                    minConfidenceThreshold cfg \<le> confidence d \<and> confidence d \<le> 1)
                 \<or> (\<exists>d. generateDiagnoses cfg plant syms inputText = [d]
                        \<and> confidence d = 0.4
                        \<and> cause_id (cause d) \<in>
                            {''underwatering'', ''overwatering'', ''light_issues'', ''pests''})))"
proof -
  define inputLower where "inputLower = toLowerCase inputText"
  define enh where "enh = enhancedSymptomDetection inputLower plant"
  define scored where "scored = causeLoop cfg plant syms enh inputText inputLower (causes plant)"
  note c = generateDiagnoses_cases[of cfg plant syms inputText, unfolded Let_def,
      folded inputLower_def, folded enh_def, folded scored_def]
  consider (none) "syms = [] \<and> enh = []"
    | (scored) "\<not> (syms = [] \<and> enh = [])" "scored \<noteq> []"
    | (nothing) "\<not> (syms = [] \<and> enh = [])" "scored = []"
        "detectGenericCause inputLower plant = None"
    | (last) genericCause where "\<not> (syms = [] \<and> enh = [])" "scored = []"
        "detectGenericCause inputLower plant = Some genericCause"
    by (cases "detectGenericCause inputLower plant") auto
  then show ?thesis
  proof cases
    case none
    then show ?thesis using c by simp
  next
    case scored
    then have g: "generateDiagnoses cfg plant syms inputText =
        slice0 (sortByConfidence scored) (maxDiagnoses cfg)" using c by auto
    have "\<forall>d\<in>set (slice0 (sortByConfidence scored) (maxDiagnoses cfg)).
            minConfidenceThreshold cfg \<le> confidence d \<and> confidence d \<le> 1"
      using set_slice0[of "sortByConfidence scored" "maxDiagnoses cfg"] causeLoop_bounds
      unfolding set_sortByConfidence scored_def by blast
    then show ?thesis unfolding g using length_slice0[OF assms] by blast
  next
    case nothing
    then have "generateDiagnoses cfg plant syms inputText = []" using c by auto
    then show ?thesis using assms by simp
  next
    case last
    then have g: "generateDiagnoses cfg plant syms inputText =
        slice0 [lastResortDiagnosis plant inputLower genericCause] (maxDiagnoses cfg)"
      using c by auto
    show ?thesis
    proof (cases "1 \<le> maxDiagnoses cfg")
      case True
      then have "generateDiagnoses cfg plant syms inputText =
          [lastResortDiagnosis plant inputLower genericCause]"
        using g by (simp add: slice0_single)
      moreover have "confidence (lastResortDiagnosis plant inputLower genericCause) = 0.4"
        by (simp add: lastResortDiagnosis_def)
      moreover have "cause_id (cause (lastResortDiagnosis plant inputLower genericCause))
          \<in> {''underwatering'', ''overwatering'', ''light_issues'', ''pests''}"
        using detectGenericCause_id[OF last(3)] by (simp add: lastResortDiagnosis_def)
      ultimately show ?thesis using True by simp
    next
      case False
      then have "generateDiagnoses cfg plant syms inputText = []"
        using g by (simp add: slice0_single)
      then show ?thesis using assms by simp
    qed
  qed
qed

subsection \<open>The engine\<close>




text \<open>The engine matters: after \<open>addPlant\<close> the same input is diagnosed differently.\<close>

lemma addPlant_changes_result:
  "map_sum id detectedPlant
     (fst (diagnoseE engine0 ''T1'' ''monstera leaf curl dry'')) = Inr (Some ''generic'')
   \<and> map_sum id detectedPlant
       (fst (diagnoseE (addPlant (\<lambda>c ps. noFuse) engine0 monstera) ''T2''
               ''monstera leaf curl dry'')) = Inr (Some ''monstera'')
   \<and> \<not> sameButTimestamp (fst (diagnoseE engine0 ''T1'' ''monstera leaf curl dry''))
         (fst (diagnoseE (addPlant (\<lambda>c ps. noFuse) engine0 monstera) ''T2''
                 ''monstera leaf curl dry''))"
  by code_simp

section \<open>The claims\<close>

text \<open>
  Claim C1, as the code has it. For a catalog whose generic record has a symptom list
  and a configuration with \<open>maxDiagnoses\<close> at least 0, \<open>diagnose\<close> returns a result for
  every input, and its list of diagnoses is the empty-input sentinel alone, or the
  no-symptom sentinel alone, or has at most \<open>maxDiagnoses\<close> entries and is either a list
  of diagnoses with confidence between \<open>minConfidenceThreshold\<close> and 1 or the single
  last-resort pattern diagnosis, whose confidence is 0.4 whatever the threshold is.
\<close>

theorem diagnose_bounds:
  assumes "findGeneric plants = Some g" and "symptoms g = Some gs"
    and "0 \<le> maxDiagnoses cfg"
  shows "\<exists>r. diagnose cfg plants fuse now inputText = Inr r
           \<and> (diagnoses r = [emptyInputDiagnosis]
              \<or> diagnoses r = [noSymptomsDiagnosis]
              \<or> (int (length (diagnoses r)) \<le> maxDiagnoses cfg
                  \<and> ((\<forall>d\<in>set (diagnoses r).
                         minConfidenceThreshold cfg \<le> confidence d \<and> confidence d \<le> 1)
                      \<or> (\<exists>d. diagnoses r = [d] \<and> confidence d = 0.4
                             \<and> cause_id (cause d) \<in>
                                 {''underwatering'', ''overwatering'', ''light_issues'',
                                  ''pests''}))))"
proof (cases "list_all isWhiteSpace inputText")
  case True
  then have "diagnose cfg plants fuse now inputText = Inr (emptyInputResult now)"
    by (rule diagnose_blank_eq)
  then show ?thesis by (simp add: emptyInputResult_def)
next
  case False
  from diagnose_nonblank_eq[OF False assms(1,2), of cfg fuse now]
  obtain r t p ms where r: "diagnose cfg plants fuse now inputText = Inr r"
    and d: "diagnoses r = generateDiagnoses cfg p ms t"
    by force
  show ?thesis
    using generateDiagnoses_bounds[OF assms(3), of p ms t] r unfolding d[symmetric]
    by blast
qed

theorem diagnose_bounds_witness:
  "findGeneric catalog = Some genericPlant \<and> symptoms genericPlant = Some [''yellow leaves'']
   \<and> 0 \<le> maxDiagnoses defaultConfig
   \<and> (\<exists>r. diagnose defaultConfig catalog noFuse ''T'' ''yellow leaves'' = Inr r
           \<and> (diagnoses r = [emptyInputDiagnosis]
              \<or> diagnoses r = [noSymptomsDiagnosis]
              \<or> (int (length (diagnoses r)) \<le> maxDiagnoses defaultConfig
                  \<and> ((\<forall>d\<in>set (diagnoses r).
                         minConfidenceThreshold defaultConfig \<le> confidence d
                         \<and> confidence d \<le> 1)
                      \<or> (\<exists>d. diagnoses r = [d] \<and> confidence d = 0.4
                             \<and> cause_id (cause d) \<in>
                                 {''underwatering'', ''overwatering'', ''light_issues'',
                                  ''pests''})))))"
proof -
  have m: "0 \<le> maxDiagnoses defaultConfig" by (simp add: defaultConfig_def)
  show ?thesis
    using diagnose_bounds[OF catalog_generic genericPlant_symptoms m, of noFuse "''T''"
        "''yellow leaves''"] catalog_generic genericPlant_symptoms m
    by (intro conjI)
qed

text \<open>
  The bounds as the specification states them fail in two ways. With the threshold at
  0.5 the last-resort diagnosis is returned with confidence 0.4; with \<open>maxDiagnoses\<close> at
  \<open>-1\<close> the slice drops the last of two diagnoses and returns one.
\<close>

theorem diagnose_bounds_counterexample:
  "map_sum id (map (cause_id \<circ> cause) \<circ> diagnoses)
     (diagnose (defaultConfig\<lparr>minConfidenceThreshold := 0.5\<rparr>) catalog noFuse ''T''
        ''monstera leaf curl dry'') = Inr [''underwatering'']
   \<and> map_sum id (map confidence \<circ> diagnoses)
       (diagnose (defaultConfig\<lparr>minConfidenceThreshold := 0.5\<rparr>) catalog noFuse ''T''
          ''monstera leaf curl dry'') = Inr [0.4]
   \<and> map_sum id (claimedBounds (defaultConfig\<lparr>minConfidenceThreshold := 0.5\<rparr>))
       (diagnose (defaultConfig\<lparr>minConfidenceThreshold := 0.5\<rparr>) catalog noFuse ''T''
          ''monstera leaf curl dry'') = Inr False
   \<and> map_sum id (map (cause_id \<circ> cause) \<circ> diagnoses)
       (diagnose (defaultConfig\<lparr>maxDiagnoses := - 1\<rparr>) catalog noFuse ''T''
          ''yellow leaves'') = Inr [''watering_issues'']
   \<and> map_sum id (claimedBounds (defaultConfig\<lparr>maxDiagnoses := - 1\<rparr>))
       (diagnose (defaultConfig\<lparr>maxDiagnoses := - 1\<rparr>) catalog noFuse ''T''
          ''yellow leaves'') = Inr False"
  by code_simp

text \<open>
  Claim C2, as the code has it. With \<open>maxDiagnoses\<close> at least 1, the list that
  \<open>generateDiagnoses\<close> returns is empty exactly when some symptom was found, the loop over
  the causes emitted nothing and the lower-cased input contains none of the last-resort
  keywords. When the loop over the causes emits nothing, the list is the
  \<open>Unclear Symptoms\<close> diagnosis (confidence 0.2) if both symptom lists are empty,
  otherwise the last-resort diagnosis (confidence 0.4) if the input contains one of the
  last-resort keywords, and otherwise empty.
\<close>

theorem generateDiagnoses_fallback:
  assumes "1 \<le> maxDiagnoses cfg"
  shows "let inputLower = toLowerCase inputText;
             enh = enhancedSymptomDetection inputLower plant;
             scored = causeLoop cfg plant syms enh inputText inputLower (causes plant);
             result = generateDiagnoses cfg plant syms inputText
         in (result = [] \<longleftrightarrow>
               \<not> (syms = [] \<and> enh = []) \<and> scored = []
               \<and> (\<forall>k\<in>set lastResortKeywords. \<not> str_includes inputLower k))
            \<and> (scored = [] \<longrightarrow>
                 (if syms = [] \<and> enh = []
                  then result = [noSymptomsDiagnosis] \<and> confidence noSymptomsDiagnosis = 0.2
                  else if \<exists>k\<in>set lastResortKeywords. str_includes inputLower k
                  then \<exists>d. result = [d] \<and> confidence d = 0.4
                         \<and> cause_id (cause d) \<in>
                             {''underwatering'', ''overwatering'', ''light_issues'', ''pests''}
                  else result = []))"
proof -
  define inputLower where "inputLower = toLowerCase inputText"
  define enh where "enh = enhancedSymptomDetection inputLower plant"
  define scored where "scored = causeLoop cfg plant syms enh inputText inputLower (causes plant)"
  define result where "result = generateDiagnoses cfg plant syms inputText"
  note c = generateDiagnoses_cases[of cfg plant syms inputText, unfolded Let_def,
      folded inputLower_def, folded enh_def, folded scored_def, folded result_def]
  note n = detectGenericCause_None_iff[of inputLower plant]
  have sl: "slice0 xs (maxDiagnoses cfg) = [] \<longleftrightarrow> xs = []" for xs :: "Diagnosis list"
    using assms by (rule slice0_Nil_iff)
  have emp: "result = [] \<longleftrightarrow>
            \<not> (syms = [] \<and> enh = []) \<and> scored = []
            \<and> (\<forall>k\<in>set lastResortKeywords. \<not> str_includes inputLower k)"
  proof (cases "detectGenericCause inputLower plant")
    case None
    then show ?thesis using c n by (auto simp: sl sortByConfidence_Nil_iff)
  next
    case (Some gc)
    then show ?thesis using c n by (auto simp: sl sortByConfidence_Nil_iff)
  qed
  have rest: "scored = [] \<longrightarrow>
              (if syms = [] \<and> enh = []
               then result = [noSymptomsDiagnosis] \<and> confidence noSymptomsDiagnosis = 0.2
               else if \<exists>k\<in>set lastResortKeywords. str_includes inputLower k
               then \<exists>d. result = [d] \<and> confidence d = 0.4
                      \<and> cause_id (cause d) \<in>
                          {''underwatering'', ''overwatering'', ''light_issues'', ''pests''}
               else result = [])"
  proof (cases "detectGenericCause inputLower plant")
    case None
    then show ?thesis using c n by (auto simp: noSymptomsDiagnosis_def)
  next
    case (Some gc)
    have "confidence (lastResortDiagnosis plant inputLower gc) = 0.4"
      by (simp add: lastResortDiagnosis_def)
    moreover have "cause_id (cause (lastResortDiagnosis plant inputLower gc))
          \<in> {''underwatering'', ''overwatering'', ''light_issues'', ''pests''}"
      using detectGenericCause_id[OF Some] by (simp add: lastResortDiagnosis_def)
    ultimately show ?thesis using c n Some assms
      by (auto simp: noSymptomsDiagnosis_def slice0_single)
  qed
  from emp rest have "(result = [] \<longleftrightarrow>
               \<not> (syms = [] \<and> enh = []) \<and> scored = []
               \<and> (\<forall>k\<in>set lastResortKeywords. \<not> str_includes inputLower k))
            \<and> (scored = [] \<longrightarrow>
                 (if syms = [] \<and> enh = []
                  then result = [noSymptomsDiagnosis] \<and> confidence noSymptomsDiagnosis = 0.2
                  else if \<exists>k\<in>set lastResortKeywords. str_includes inputLower k
                  then \<exists>d. result = [d] \<and> confidence d = 0.4
                         \<and> cause_id (cause d) \<in>
                             {''underwatering'', ''overwatering'', ''light_issues'', ''pests''}
                  else result = []))"
    by (rule conjI)
  then show ?thesis
    unfolding Let_def result_def scored_def enh_def inputLower_def .
qed

theorem generateDiagnoses_fallback_witness:
  "1 \<le> maxDiagnoses defaultConfig
   \<and> generateDiagnoses defaultConfig monstera [] ''Monstera leaf curl'' = []
   \<and> generateDiagnoses defaultConfig monstera [] ''Monstera hello'' = [noSymptomsDiagnosis]
   \<and> (\<exists>d. generateDiagnoses defaultConfig monstera [] ''Monstera leaf curl dry'' = [d]
          \<and> confidence d = 0.4)"
proof -
  have m: "1 \<le> maxDiagnoses defaultConfig" by (simp add: defaultConfig_def)
  have a1: "enhancedSymptomDetection (toLowerCase ''Monstera leaf curl'') monstera \<noteq> []"
    by code_simp
  have a2: "causeLoop defaultConfig monstera []
              (enhancedSymptomDetection (toLowerCase ''Monstera leaf curl'') monstera)
              ''Monstera leaf curl'' (toLowerCase ''Monstera leaf curl'') (causes monstera) = []"
    by code_simp
  have a3: "list_all (\<lambda>k. \<not> str_includes (toLowerCase ''Monstera leaf curl'') k)
              lastResortKeywords"
    by code_simp
  have r1: "generateDiagnoses defaultConfig monstera [] ''Monstera leaf curl'' = []"
    using generateDiagnoses_fallback[OF m, of "''Monstera leaf curl''" monstera "[]"] a1 a2 a3
    by (simp add: list_all_iff Let_def)
  have b1: "enhancedSymptomDetection (toLowerCase ''Monstera hello'') monstera = []"
    by code_simp
  have b2: "causeLoop defaultConfig monstera []
              (enhancedSymptomDetection (toLowerCase ''Monstera hello'') monstera)
              ''Monstera hello'' (toLowerCase ''Monstera hello'') (causes monstera) = []"
    by code_simp
  have r2: "generateDiagnoses defaultConfig monstera [] ''Monstera hello''
              = [noSymptomsDiagnosis]"
    using generateDiagnoses_fallback[OF m, of "''Monstera hello''" monstera "[]"] b1 b2
    by (simp add: Let_def)
  have c1: "enhancedSymptomDetection (toLowerCase ''Monstera leaf curl dry'') monstera \<noteq> []"
    by code_simp
  have c2: "causeLoop defaultConfig monstera []
              (enhancedSymptomDetection (toLowerCase ''Monstera leaf curl dry'') monstera)
              ''Monstera leaf curl dry'' (toLowerCase ''Monstera leaf curl dry'')
              (causes monstera) = []"
    by code_simp
  have c3: "list_ex (\<lambda>k. str_includes (toLowerCase ''Monstera leaf curl dry'') k)
              lastResortKeywords"
    by code_simp
  have r3: "\<exists>d. generateDiagnoses defaultConfig monstera [] ''Monstera leaf curl dry'' = [d]
          \<and> confidence d = 0.4"
    using generateDiagnoses_fallback[OF m, of "''Monstera leaf curl dry''" monstera "[]"]
      c1 c2 c3
    by (simp add: list_ex_iff Let_def) blast
  from m r1 r2 r3 show ?thesis by (intro conjI)
qed

text \<open>
  The list of diagnoses can be empty. Under the default configuration: the input names
  the monstera and its symptom \<open>leaf curl\<close>, no keyword of a cause matches, and no
  last-resort keyword occurs. With \<open>maxDiagnoses\<close> at 0: the last-resort diagnosis for
  \<open>dry\<close> is built and the slice drops it.
\<close>

theorem generateDiagnoses_fallback_counterexample:
  "map_sum id diagnoses
     (diagnose defaultConfig catalog noFuse ''T'' ''monstera leaf curl'') = Inr []
   \<and> map_sum id diagnoses
       (diagnose (defaultConfig\<lparr>maxDiagnoses := 0\<rparr>) catalog noFuse ''T''
          ''monstera leaf curl dry'') = Inr []"
  by code_simp

text \<open>
  Claim C3. For the empty string and for every input of white space only, \<open>diagnose\<close>
  returns the fixed result, whatever the catalog, the configuration and the fuzzy index
  are (it returns even for a catalog on which detection would throw): a result with
  exactly one diagnosis, whose cause has the id \<open>empty_input\<close> and whose confidence is 0.
\<close>

theorem diagnose_empty_input:
  assumes "list_all isWhiteSpace inputText"
  shows "diagnose cfg plants fuse now inputText = Inr (emptyInputResult now)
         \<and> (\<exists>d. diagnoses (emptyInputResult now) = [d]
                \<and> cause_id (cause d) = ''empty_input'' \<and> confidence d = 0)"
  using diagnose_blank_eq[OF assms]
  by (simp add: emptyInputResult_def emptyInputDiagnosis_def)

theorem diagnose_empty_input_witness:
  "list_all isWhiteSpace '' '' \<and> list_all isWhiteSpace [] \<and> list_all isWhiteSpace [CHR 0xA0]
   \<and> diagnose defaultConfig [] noFuse ''T'' '' '' = Inr (emptyInputResult ''T'')
   \<and> diagnose defaultConfig [] noFuse ''T'' [] = Inr (emptyInputResult ''T'')
   \<and> diagnose defaultConfig [] noFuse ''T'' [CHR 0xA0] = Inr (emptyInputResult ''T'')
   \<and> diagnose defaultConfig [] noFuse ''T'' ''x'' = Inl TypeError"
proof -
  have e: "diagnose defaultConfig [] noFuse ''T'' ''x'' = Inl TypeError"
    by (simp add: diagnose_def detectPlant_def findGeneric_def noFuse_def defaultConfig_def
        trim_def isWhiteSpace_def Let_def)
  show ?thesis
    using diagnose_empty_input[of "'' ''" defaultConfig "[]" noFuse "''T''"]
      diagnose_empty_input[of "[]" defaultConfig "[]" noFuse "''T''"]
      diagnose_empty_input[of "[CHR 0xA0]" defaultConfig "[]" noFuse "''T''"] e
    by (simp add: isWhiteSpace_def)
qed

text \<open>
  Claim C4. With the symptom matches that extraction returns and the enhanced symptoms
  of the plant, the confidence computed for a cause is the formula of the specification,
  \<open>max(0.3, min(1.0, plantMatchWeight * (|allMatches| / max(|causeKeywords|, 1)) +
  symptomMatchWeight * (avgSymptomScore(symptoms) + avgSymptomScore(enhancedSymptoms)) / 2))\<close>;
  this is the confidence of every diagnosis that the loop over the causes emits.
\<close>

theorem confidence_formula:
  assumes "extractSymptoms plants inputText plant = Inr syms"
  shows "(\<forall>c. causeConfidence cfg syms (enhancedSymptomDetection (toLowerCase inputText) plant)
                 (toLowerCase inputText) c
               = specConfidence cfg (allMatchesOf (toLowerCase inputText) c) (keywordsOrEmpty c)
                   syms (enhancedSymptomDetection (toLowerCase inputText) plant))
         \<and> (\<forall>d\<in>set (causeLoop cfg plant syms
                        (enhancedSymptomDetection (toLowerCase inputText) plant)
                        inputText (toLowerCase inputText) (causes plant)).
               confidence d
               = specConfidence cfg (allMatchesOf (toLowerCase inputText) (cause d))
                   (keywordsOrEmpty (cause d))
                   syms (enhancedSymptomDetection (toLowerCase inputText) plant))"
proof -
  have s: "\<forall>m\<in>set syms. weight m \<le> 1"
    using extractSymptoms_weight[OF assms] by blast
  have e: "\<forall>m\<in>set (enhancedSymptomDetection (toLowerCase inputText) plant). weight m \<le> 1"
    by (auto simp: enhancedSymptomDetection_def dest: enhancedLoop_weight)
  show ?thesis
    using causeConfidence_spec[OF s e] causeLoop_confidence by metis
qed

theorem confidence_formula_witness:
  "\<exists>syms. extractSymptoms catalog ''yellow leaves'' genericPlant = Inr syms
      \<and> (\<forall>c. causeConfidence defaultConfig syms
                 (enhancedSymptomDetection (toLowerCase ''yellow leaves'') genericPlant)
                 (toLowerCase ''yellow leaves'') c
               = specConfidence defaultConfig (allMatchesOf (toLowerCase ''yellow leaves'') c)
                   (keywordsOrEmpty c) syms
                   (enhancedSymptomDetection (toLowerCase ''yellow leaves'') genericPlant))"
proof -
  obtain syms where s: "extractSymptoms catalog ''yellow leaves'' genericPlant = Inr syms"
    using extractSymptoms_Inr[OF catalog_generic genericPlant_symptoms] by blast
  show ?thesis using confidence_formula[OF s, of defaultConfig] s by blast
qed

text \<open>
  Claim C5, as the code has it. For a candidate symptom whose phrase is not in the input,
  the accumulated match weight is 0.3 times the number of pairs of a symptom word longer
  than 2 and an input word of which one contains the other (the words are the pieces
  between single spaces, empty pieces included), plus 0.5 times the number of symptom
  words longer than 3 that occur in the input, plus 0.4 times the number of semantic
  groups with a keyword in the symptom and a keyword in the input.
\<close>

theorem match_weight_accumulated:
  assumes "\<not> str_includes text symptomLower"
  shows "fst (scoreSymptom text symptomLower) =
           0.3 * real (wordPairCount symptomLower text)
           + 0.5 * real (substringWordCount symptomLower text)
           + 0.4 * real (semanticGroupCount symptomLower text)"
  using assms by (simp add: scoreSymptom_def accumulateMatch_fst)

theorem match_weight_accumulated_witness:
  "\<not> str_includes ''leaf leaf'' ''leaf curl''
   \<and> fst (scoreSymptom ''leaf leaf'' ''leaf curl'') = 1.1
   \<and> wordPairCount ''leaf curl'' ''leaf leaf'' = 2
   \<and> substringWordCount ''leaf curl'' ''leaf leaf'' = 1
   \<and> semanticGroupCount ''leaf curl'' ''leaf leaf'' = 0"
proof -
  have n: "\<not> str_includes ''leaf leaf'' ''leaf curl''" by simp
  have w: "wordPairCount ''leaf curl'' ''leaf leaf'' = 2" by (simp add: wordPairCount_def)
  have s: "substringWordCount ''leaf curl'' ''leaf leaf'' = 1"
    by (simp add: substringWordCount_def)
  have g: "semanticGroupCount ''leaf curl'' ''leaf leaf'' = 0"
    by (simp add: semanticGroupCount_def semanticGroups_def)
  have "fst (scoreSymptom ''leaf leaf'' ''leaf curl'') = 1.1"
    using match_weight_accumulated[OF n] by (simp add: w s g)
  with n w s g show ?thesis by (intro conjI)
qed

text \<open>
  The weight as the specification states it counts a symptom word once: for the symptom
  \<open>leaf curl\<close> and the input \<open>leaf leaf\<close> it gives 0.8, and the code accumulates 1.1.
\<close>

theorem match_weight_counterexample:
  "\<not> str_includes ''leaf leaf'' ''leaf curl''
   \<and> fst (scoreSymptom ''leaf leaf'' ''leaf curl'') = 1.1
   \<and> claimedWeight ''leaf leaf'' ''leaf curl'' = 0.8
   \<and> fst (scoreSymptom ''leaf leaf'' ''leaf curl'') \<noteq> claimedWeight ''leaf leaf'' ''leaf curl''"
  by (simp add: scoreSymptom_def accumulateMatch_def getSemanticMatches_def semanticGroups_def
      claimedWeight_def substringWordCount_def semanticGroupCount_def)

text \<open>
  Claim C6. Given a catalog whose generic record has a symptom list, symptom extraction
  returns at most 10 entries, in order of non-increasing weight, no two with the same
  symptom text, each with a weight above 0.2 and at most 1; and the entry kept for a
  symptom text has the highest weight among the matched candidates with that text.
\<close>

theorem extractSymptoms_contract:
  assumes "findGeneric plants = Some g" and "symptoms g = Some gs"
  shows "\<exists>ms. extractSymptoms plants inputText plant = Inr ms
           \<and> length ms \<le> 10
           \<and> sorted_wrt (\<lambda>a b. weight b \<le> weight a) ms
           \<and> distinct (map symptom ms)
           \<and> (\<forall>m\<in>set ms. 0.2 < weight m \<and> weight m \<le> 1)
           \<and> (\<forall>m\<in>set ms. \<forall>c\<in>set (matchLoop (toLowerCase inputText) (symptomsOrEmpty plant)
                                      (symptomsOrEmpty plant @ gs)).
                 symptom c = symptom m \<longrightarrow> weight c \<le> weight m)"
proof -
  define cands where
    "cands = matchLoop (toLowerCase inputText) (symptomsOrEmpty plant) (symptomsOrEmpty plant @ gs)"
  define uniq where "uniq = uniqueLoop (sortByWeight cands) {}"
  have eq: "extractSymptoms plants inputText plant = Inr (take 10 uniq)"
    using extractSymptoms_Inr[OF assms] by (simp add: uniq_def cands_def)
  have srt: "sorted_wrt byWeightDesc uniq"
    unfolding uniq_def by (rule uniqueLoop_sorted) (rule sortByWeight_sorted)
  have "length (take 10 uniq) \<le> 10" by simp
  moreover have "sorted_wrt (\<lambda>a b. weight b \<le> weight a) (take 10 uniq)"
    using srt sorted_wrt_take[of byWeightDesc uniq 10] by (simp add: byWeightDesc_def[abs_def])
  moreover have "distinct (map symptom (take 10 uniq))"
    using uniqueLoop_distinct[of "sortByWeight cands" "{}"]
    by (simp add: uniq_def take_map[symmetric])
  moreover have "\<forall>m\<in>set (take 10 uniq). 0.2 < weight m \<and> weight m \<le> 1"
    using extractSymptoms_weight[OF eq] by blast
  moreover have "\<forall>m\<in>set (take 10 uniq). \<forall>c\<in>set cands.
                   symptom c = symptom m \<longrightarrow> weight c \<le> weight m"
  proof (intro ballI impI)
    fix m c
    assume "m \<in> set (take 10 uniq)" and c: "c \<in> set cands" and s: "symptom c = symptom m"
    then have "m \<in> set (uniqueLoop (sortByWeight cands) {})"
      unfolding uniq_def by (blast dest: in_set_takeD)
    moreover have "c \<in> set (sortByWeight cands)" using c by (simp add: set_sortByWeight)
    ultimately show "weight c \<le> weight m"
      using uniqueLoop_first[OF sortByWeight_sorted] s by blast
  qed
  ultimately show ?thesis using eq unfolding cands_def by blast
qed

theorem extractSymptoms_contract_witness:
  "findGeneric catalog = Some genericPlant \<and> symptoms genericPlant = Some [''yellow leaves'']
   \<and> (\<exists>ms. extractSymptoms catalog ''yellow leaf curl'' monstera = Inr ms
          \<and> length ms \<le> 10
          \<and> sorted_wrt (\<lambda>a b. weight b \<le> weight a) ms
          \<and> distinct (map symptom ms)
          \<and> (\<forall>m\<in>set ms. 0.2 < weight m \<and> weight m \<le> 1))"
  using extractSymptoms_contract[OF catalog_generic genericPlant_symptoms,
      of "''yellow leaf curl''" monstera]
    catalog_generic genericPlant_symptoms
  by blast

text \<open>
  Claim C7. When the input contains the full name of some plant of the catalog,
  detection answers \<open>plant_name_match\<close> with score 1.0, whatever the aliases and the fuzzy
  index are, and the plant it returns is the first one in catalog order whose full name
  the input contains.
\<close>

theorem detectPlant_name_match:
  assumes "p \<in> set plants" and "containsFullName inputText p"
  shows "det_method (detectPlant cfg plants fuse inputText) = ''plant_name_match''
         \<and> det_score (detectPlant cfg plants fuse inputText) = 1.0
         \<and> (\<exists>before q after. plants = before @ q # after
               \<and> det_plant (detectPlant cfg plants fuse inputText) = Some q
               \<and> containsFullName inputText q
               \<and> (\<forall>b\<in>set before. \<not> containsFullName inputText b))"
proof -
  from assms have "\<exists>p\<in>set plants. containsFullName inputText p" by blast
  then obtain before q after where h: "plants = before @ q # after"
      "nameLoop (split_ws (toLowerCase inputText)) plants = Some q"
      "containsFullName inputText q" "\<forall>b\<in>set before. \<not> containsFullName inputText b"
    using nameLoop_first by blast
  have d: "detectPlant cfg plants fuse inputText =
          \<lparr>det_plant = Some q, det_score = 1.0, det_method = ''plant_name_match''\<rparr>"
    using h(2) by (simp add: detectPlant_def Let_def)
  show ?thesis unfolding d using h(1,3,4) by auto
qed

theorem detectPlant_name_match_witness:
  "genericPlant \<in> set catalog \<and> containsFullName ''my generic plants monstera'' genericPlant
   \<and> containsFullName ''my generic plants monstera'' monstera
   \<and> det_method (detectPlant defaultConfig catalog noFuse ''my generic plants monstera'')
       = ''plant_name_match''
   \<and> det_score (detectPlant defaultConfig catalog noFuse ''my generic plants monstera'') = 1
   \<and> det_plant (detectPlant defaultConfig catalog noFuse ''my generic plants monstera'')
       = Some monstera"
proof -
  have m: "genericPlant \<in> set catalog" by (simp add: catalog_def)
  have c: "containsFullName ''my generic plants monstera'' genericPlant"
    by (simp add: containsFullName_def genericPlant_def toLowerCase_def lowerChar_def upperLetters_def lowerLetters_def
        isWhiteSpace_def)
  have c2: "containsFullName ''my generic plants monstera'' monstera"
    by (simp add: containsFullName_def monstera_def toLowerCase_def lowerChar_def upperLetters_def lowerLetters_def
        isWhiteSpace_def)
  note t = detectPlant_name_match[OF m c, of defaultConfig noFuse]
  from t obtain before q after where h: "catalog = before @ q # after"
    "det_plant (detectPlant defaultConfig catalog noFuse ''my generic plants monstera'') = Some q"
    "\<forall>b\<in>set before. \<not> containsFullName ''my generic plants monstera'' b"
    by blast
  have "q = monstera"
  proof (cases before)
    case Nil
    with h(1) show ?thesis by (simp add: catalog_def)
  next
    case (Cons b bs)
    with h(1) have "b = monstera" by (simp add: catalog_def)
    with Cons h(3) c2 show ?thesis by simp
  qed
  with h(2) have p: "det_plant (detectPlant defaultConfig catalog noFuse
      ''my generic plants monstera'') = Some monstera" by (simp only:)
  from t have ms: "det_method (detectPlant defaultConfig catalog noFuse
      ''my generic plants monstera'') = ''plant_name_match''
     \<and> det_score (detectPlant defaultConfig catalog noFuse ''my generic plants monstera'') = 1"
    by argo
  from m c c2 ms p show ?thesis by (intro conjI) (erule conjunct1 conjunct2 | assumption)+
qed

text \<open>
  Claim C8. When the list of symptom matches and the list of enhanced symptoms are both
  empty, the result is the single fixed diagnosis \<open>Unclear Symptoms\<close> with confidence
  0.2 and the four guidance actions; the causes of the plant and the configuration play
  no part.
\<close>

theorem generateDiagnoses_no_symptoms:
  assumes "syms = []" and "enhancedSymptomDetection (toLowerCase inputText) plant = []"
  shows "generateDiagnoses cfg plant syms inputText = [noSymptomsDiagnosis]
         \<and> cause_id (cause noSymptomsDiagnosis) = ''no_symptoms''
         \<and> cause_label (cause noSymptomsDiagnosis) = ''Unclear Symptoms''
         \<and> confidence noSymptomsDiagnosis = 0.2
         \<and> actions noSymptomsDiagnosis =
             [''Provide more specific details about what you're seeing'',
              ''Mention the plant name if you know it'',
              ''Describe the symptoms more clearly'',
              ''Include information about watering, light, and recent changes'']"
  using assms by (simp add: generateDiagnoses_def noSymptomsDiagnosis_def)

theorem generateDiagnoses_no_symptoms_witness:
  "enhancedSymptomDetection (toLowerCase ''Hello there'') monstera = []
   \<and> generateDiagnoses defaultConfig monstera [] ''Hello there'' = [noSymptomsDiagnosis]
   \<and> causes monstera \<noteq> []"
proof -
  have e: "enhancedSymptomDetection (toLowerCase ''Hello there'') monstera = []"
    by (simp add: enhancedSymptomDetection_def symptomsOrEmpty_def monstera_def
        toLowerCase_def lowerChar_def upperLetters_def lowerLetters_def)
  show ?thesis
    using generateDiagnoses_no_symptoms[OF refl e, of defaultConfig] e
    by (simp add: monstera_def)
qed



text \<open>
  Claim C10. For an empty input or one of white space only, the result has the plant
  name \<open>generic\<close>, the match score 0 and none of the fields \<open>originalInput\<close>,
  \<open>detectedPlant\<close>, \<open>detectionMethod\<close>; for every other input, a result that
  \<open>diagnose\<close> returns carries all three.
\<close>

theorem diagnose_result_fields:
  "(list_all isWhiteSpace inputText \<longrightarrow>
      (\<exists>r. diagnose cfg plants fuse now inputText = Inr r
           \<and> plantName r = ''generic'' \<and> plantMatchScore r = 0
           \<and> originalInput r = None \<and> detectedPlant r = None \<and> detectionMethod r = None))
   \<and> (\<not> list_all isWhiteSpace inputText \<longrightarrow>
      (\<forall>r. diagnose cfg plants fuse now inputText = Inr r \<longrightarrow>
           originalInput r \<noteq> None \<and> detectedPlant r \<noteq> None \<and> detectionMethod r \<noteq> None))"
proof (rule conjI; intro impI allI)
  assume "list_all isWhiteSpace inputText"
  then have "diagnose cfg plants fuse now inputText = Inr (emptyInputResult now)"
    by (rule diagnose_blank_eq)
  then show "\<exists>r. diagnose cfg plants fuse now inputText = Inr r
           \<and> plantName r = ''generic'' \<and> plantMatchScore r = 0
           \<and> originalInput r = None \<and> detectedPlant r = None \<and> detectionMethod r = None"
    by (simp add: emptyInputResult_def)
next
  fix r
  assume "\<not> list_all isWhiteSpace inputText" "diagnose cfg plants fuse now inputText = Inr r"
  then show "originalInput r \<noteq> None \<and> detectedPlant r \<noteq> None \<and> detectionMethod r \<noteq> None"
    by (rule diagnose_nonblank_fields)
qed

theorem diagnose_result_fields_witness:
  "(\<exists>r. diagnose defaultConfig catalog noFuse ''T'' '' '' = Inr r
        \<and> plantName r = ''generic'' \<and> plantMatchScore r = 0
        \<and> originalInput r = None \<and> detectedPlant r = None \<and> detectionMethod r = None)
   \<and> (\<exists>r. diagnose defaultConfig catalog noFuse ''T'' [CHR 0xA0] = Inr r
        \<and> plantName r = ''generic'' \<and> plantMatchScore r = 0
        \<and> originalInput r = None \<and> detectedPlant r = None \<and> detectionMethod r = None)
   \<and> (\<exists>r. diagnose defaultConfig catalog noFuse ''T'' ''monstera'' = Inr r
        \<and> originalInput r \<noteq> None \<and> detectedPlant r \<noteq> None \<and> detectionMethod r \<noteq> None)"
proof -
  have blank: "list_all isWhiteSpace '' ''" by (simp add: isWhiteSpace_def)
  have nbsp: "list_all isWhiteSpace [CHR 0xA0]" by (simp add: isWhiteSpace_def)
  have nonblank: "\<not> list_all isWhiteSpace ''monstera''" by (simp add: isWhiteSpace_def)
  obtain r where r: "diagnose defaultConfig catalog noFuse ''T'' ''monstera'' = Inr r"
    using diagnose_total[OF catalog_generic genericPlant_symptoms] by blast
  show ?thesis
    using diagnose_result_fields[of "'' ''" defaultConfig catalog noFuse "''T''"]
      diagnose_result_fields[of "[CHR 0xA0]" defaultConfig catalog noFuse "''T''"]
      diagnose_result_fields[of "''monstera''" defaultConfig catalog noFuse "''T''"]
      blank nbsp nonblank r
    by blast
qed

end
